theory Spec2Isabelle
  imports Complex_Main "HOL-Library.Word"
begin

section \<open>JavaScript primitives used by the components\<close>

text \<open>
  Scores are integers (the risk matrix is 1..25, estimator scores are integers), so a
  JavaScript \<open>number\<close> holding a score is an \<open>int\<close>. The one place where the
  source leaves the integers is the division inside \<open>avgScore\<close>; there the quotient is
  an exact rational and \<open>Math.round\<close> rounds it half up.

  Free text (the title and the description of a risk, the search term) is a JavaScript
  string: a sequence of UTF-16 code units, here a list of 16-bit words. Tags that the
  code only compares with its own literals (category, status, the filter settings,
  action names, ids) are plain strings.

  \<open>String.prototype.toLowerCase\<close> is a builtin of the language and not code of the
  component. It is a parameter of the filter below, and nothing is assumed of it: it need
  not keep the length of a string nor work code unit by code unit.
\<close>

type_synonym js_string = "16 word list"

text \<open>The code units of a literal made of ASCII characters.\<close>

definition utf16 :: "string \<Rightarrow> js_string" where
  "utf16 s = map of_char s"

fun startsWith :: "'a list \<Rightarrow> 'a list \<Rightarrow> bool" where
  "startsWith s [] = True"
| "startsWith [] (c # t) = False"
| "startsWith (a # s) (c # t) = (a = c \<and> startsWith s t)"

text \<open>\<open>s.includes(t)\<close>: the code units of \<open>t\<close> occur in \<open>s\<close> at some position.\<close>

fun includes_str :: "'a list \<Rightarrow> 'a list \<Rightarrow> bool" where
  "includes_str [] t = (t = [])"
| "includes_str (a # s) t = (startsWith (a # s) t \<or> includes_str s t)"

text \<open>\<open>Math.round\<close>: the nearest integer, a tie going up.\<close>

definition Math_round :: "rat \<Rightarrow> int" where
  "Math_round x = \<lfloor>x + 1 / 2\<rfloor>"

section \<open>RiskManagement.tsx: classifier, filter and statistics\<close>

text \<open>The columns of a \<open>risks\<close> row that the component reads.\<close>

record risk =
  risk_id :: string
  title :: js_string
  description :: js_string
  category :: string
  status :: string
  risk_score :: int
  created_at :: nat

text \<open>The component's state (the \<open>useState\<close> cells).\<close>

record rm_state =
  risks :: "risk list"
  loading :: bool
  error :: "string option"
  searchTerm :: js_string
  filterCategory :: string
  filterStatus :: string
  filterRiskLevel :: string
  selectedRisk :: "risk option"

definition getRiskLevel :: "int \<Rightarrow> string" where
  "getRiskLevel score =
     (if score \<le> 5 then ''Low''
      else if score \<le> 12 then ''Medium''
      else if score \<le> 20 then ''High''
      else ''Critical'')"

definition matchesSearch :: "(js_string \<Rightarrow> js_string) \<Rightarrow> rm_state \<Rightarrow> risk \<Rightarrow> bool" where
  "matchesSearch toLowerCase st risk =
     (includes_str (toLowerCase (title risk)) (toLowerCase (searchTerm st)) \<or>
      includes_str (toLowerCase (description risk)) (toLowerCase (searchTerm st)))"

definition matchesCategory :: "rm_state \<Rightarrow> risk \<Rightarrow> bool" where
  "matchesCategory st risk = (filterCategory st = ''all'' \<or> category risk = filterCategory st)"

definition matchesStatus :: "rm_state \<Rightarrow> risk \<Rightarrow> bool" where
  "matchesStatus st risk = (filterStatus st = ''all'' \<or> status risk = filterStatus st)"

definition matchesRiskLevel :: "rm_state \<Rightarrow> risk \<Rightarrow> bool" where
  "matchesRiskLevel st risk =
     (if filterRiskLevel st = ''low'' then risk_score risk \<le> 5
      else if filterRiskLevel st = ''medium'' then risk_score risk > 5 \<and> risk_score risk \<le> 12
      else if filterRiskLevel st = ''high'' then risk_score risk > 12 \<and> risk_score risk \<le> 20
      else if filterRiskLevel st = ''critical'' then risk_score risk > 20
      else True)"

definition filteredRisks :: "(js_string \<Rightarrow> js_string) \<Rightarrow> rm_state \<Rightarrow> risk list" where
  "filteredRisks toLowerCase st =
     filter (\<lambda>risk. matchesSearch toLowerCase st risk \<and> matchesCategory st risk \<and>
                    matchesStatus st risk \<and> matchesRiskLevel st risk)
            (risks st)"

record risk_stats =
  total :: nat
  critical :: nat
  high :: nat
  medium :: nat
  low :: nat
  open_count :: nat
  avgScore :: int

definition riskStats :: "rm_state \<Rightarrow> risk_stats" where
  "riskStats st =
     \<lparr> total = length (risks st),
       critical = length (filter (\<lambda>r. risk_score r > 20) (risks st)),
       high = length (filter (\<lambda>r. risk_score r > 12 \<and> risk_score r \<le> 20) (risks st)),
       medium = length (filter (\<lambda>r. risk_score r > 5 \<and> risk_score r \<le> 12) (risks st)),
       low = length (filter (\<lambda>r. risk_score r \<le> 5) (risks st)),
       open_count = length (filter (\<lambda>r. status r \<notin> set [''closed'', ''mitigated'']) (risks st)),
       avgScore =
         (if length (risks st) > 0
          then Math_round (of_int (foldl (\<lambda>sum r. sum + risk_score r) 0 (risks st))
                           / of_nat (length (risks st)))
          else 0) \<rparr>"

section \<open>AddAssetForm.tsx: creating an asset\<close>

text \<open>
  A thrown JavaScript value: an \<open>Error\<close> object with its message, or any other value
  (for which \<open>err instanceof Error\<close> is false).
\<close>

datatype exn = Error string | NonError string

datatype log_entry = console_warn string | console_error string exn

record AppliedMitigation =
  mitigation_id :: string
  mitigation_description :: string
  applied_risk_reduction_score :: int

record location =
  address :: string
  city :: string
  country :: string
  coordinates :: "rat \<times> rat"

record personnel =
  current :: int
  capacity :: int
  authorized :: "string list"

record components =
  physicalSecurity :: int
  cyberSecurity :: int
  accessControl :: int
  environmentalRisk :: int
  personnelRisk :: int

record predictions =
  nextWeek :: int
  nextMonth :: int

text \<open>The \<open>ai_risk_score\<close> object of the form; \<open>explanation\<close> is absent until the
  estimator supplies one.\<close>

record ai_score =
  overall :: int
  components :: components
  trend :: string
  lastUpdated :: string
  confidence :: int
  predictions :: predictions
  explanation :: "string option"

text \<open>\<open>updatedRiskScore\<close> spreads the score object and adds three fields.\<close>

record updated_ai_score = ai_score +
  mitigationApplied :: bool
  originalScore :: int
  totalRiskReduction_field :: int

text \<open>Each security subsystem is a status and its metric (coverage, zones, sensors,
  coverage, threats).\<close>

record security_systems =
  cctv :: "string \<times> int"
  accessControl_system :: "string \<times> int"
  alarms :: "string \<times> int"
  fireSupression :: "string \<times> int"
  networkSecurity :: "string \<times> int"

record compliance =
  lastAudit :: string
  nextAudit :: string
  compliance_score :: int
  issues :: "string list"

record incidents =
  incidents_total :: int
  lastIncident :: string
  severity :: string

record responsible_officer =
  officer_name :: string
  email :: string
  phone :: string
  officer_department :: string

text \<open>The fields that \<open>formData\<close>, \<open>assetData\<close> and \<open>finalAssetData\<close> share.\<close>

record asset_fields =
  name :: string
  asset_type :: string
  location :: location
  asset_status :: string
  personnel :: personnel
  security_systems :: security_systems
  compliance :: compliance
  incidents :: incidents
  responsible_officer :: responsible_officer

record formData = asset_fields +
  form_ai_risk_score :: ai_score

record assetData = asset_fields +
  asset_organization_id :: string

record AssetInsert = assetData +
  ai_risk_score :: updated_ai_score
  mitigations :: "AppliedMitigation list option"

text \<open>What \<open>aiService.scoreAssetRisk\<close> resolves to; the optional parts may be missing.\<close>

record aiResult =
  score :: int
  ai_components :: "components option"
  ai_trend :: "string option"
  ai_confidence :: int
  ai_predictions :: "predictions option"
  ai_explanation :: "string option"

record profile =
  organization_id :: "string option"
  department :: "string option"

text \<open>
  What surrounds \<open>handleSubmit\<close>: the profile from \<open>useAuth\<close>, the estimator (which
  resolves or throws), the \<open>onSubmit\<close> callback of the parent (likewise) and the clock.

  When the estimator sends no predictions the code makes them up from the score, as
  \<open>Math.round(score * (1 + (Math.random() * 0.1 - 0.05)))\<close> for the next week and the
  same with 0.2 and 0.1 for the next month. Their values depend on the two random draws
  and on the rounding of double arithmetic, so \<open>random_predictions\<close> stands for what the
  two expressions evaluate to in this run, as a function of the score.
\<close>

record submit_env =
  submit_profile :: "profile option"
  scoreAssetRisk :: "assetData \<Rightarrow> exn + aiResult"
  onSubmit :: "AssetInsert \<Rightarrow> exn + unit"
  submit_now :: string
  random_predictions :: "int \<Rightarrow> predictions"

record form_state =
  form_loading :: bool
  form_error :: "string option"
  aiScoring :: bool

text \<open>What a run of \<open>handleSubmit\<close> did to the outside: console lines and the
  arguments of its calls of \<open>onSubmit\<close>.\<close>

record submit_effects =
  submit_console :: "log_entry list"
  submitted :: "AssetInsert list"

text \<open>\<open>profile?.organization_id || ''\<close>\<close>

definition organization_id_or_empty :: "profile option \<Rightarrow> string" where
  "organization_id_or_empty p =
     (case p of
        None \<Rightarrow> []
      | Some pr \<Rightarrow> (case organization_id pr of None \<Rightarrow> [] | Some org \<Rightarrow> org))"

definition assetData :: "submit_env \<Rightarrow> formData \<Rightarrow> assetData" where
  "assetData env fd =
     \<lparr> name = name fd,
       asset_type = asset_type fd,
       location = location fd,
       asset_status = asset_status fd,
       personnel = personnel fd,
       security_systems = security_systems fd,
       compliance = compliance fd,
       incidents = incidents fd,
       responsible_officer = responsible_officer fd,
       asset_organization_id = organization_id_or_empty (submit_profile env) \<rparr>"

text \<open>
  The inner \<open>try\<close>: the score object after the estimator call, with the console lines
  written. When the call throws, the copy of the form's own score object stands.
\<close>

definition aiRiskScore :: "submit_env \<Rightarrow> formData \<Rightarrow> ai_score \<times> log_entry list" where
  "aiRiskScore env fd =
     (case scoreAssetRisk env (assetData env fd) of
        Inr aiResult \<Rightarrow>
          (\<lparr> overall = score aiResult,
             components = (case ai_components aiResult of
                             Some c \<Rightarrow> c
                           | None \<Rightarrow> components (form_ai_risk_score fd)),
             trend = (case ai_trend aiResult of
                        Some t \<Rightarrow> if t = [] then ''stable'' else t
                      | None \<Rightarrow> ''stable''),
             lastUpdated = submit_now env,
             confidence = ai_confidence aiResult,
             predictions =
               (case ai_predictions aiResult of
                  Some p \<Rightarrow> p
                | None \<Rightarrow> random_predictions env (score aiResult)),
             explanation = ai_explanation aiResult \<rparr>,
           [])
      | Inl aiError \<Rightarrow>
          (form_ai_risk_score fd, [console_error ''Error getting AI risk score:'' aiError]))"

definition totalRiskReduction :: "AppliedMitigation list \<Rightarrow> int" where
  "totalRiskReduction ms =
     foldl (\<lambda>sum mitigation. sum + applied_risk_reduction_score mitigation) 0 ms"

definition effectiveRiskScore :: "ai_score \<Rightarrow> AppliedMitigation list \<Rightarrow> int" where
  "effectiveRiskScore a ms = max 0 (overall a - totalRiskReduction ms)"

definition updatedRiskScore :: "ai_score \<Rightarrow> AppliedMitigation list \<Rightarrow> updated_ai_score" where
  "updatedRiskScore a ms =
     \<lparr> overall = effectiveRiskScore a ms,
       components = components a,
       trend = trend a,
       lastUpdated = lastUpdated a,
       confidence = confidence a,
       predictions = predictions a,
       explanation = explanation a,
       mitigationApplied = (totalRiskReduction ms > 0),
       originalScore = overall a,
       totalRiskReduction_field = totalRiskReduction ms \<rparr>"

definition finalAssetData ::
  "submit_env \<Rightarrow> formData \<Rightarrow> ai_score \<Rightarrow> AppliedMitigation list \<Rightarrow> AssetInsert" where
  "finalAssetData env fd a ms =
     \<lparr> name = name fd,
       asset_type = asset_type fd,
       location = location fd,
       asset_status = asset_status fd,
       personnel = personnel fd,
       security_systems = security_systems fd,
       compliance = compliance fd,
       incidents = incidents fd,
       responsible_officer = responsible_officer fd,
       asset_organization_id = organization_id_or_empty (submit_profile env),
       ai_risk_score = updatedRiskScore a ms,
       mitigations = (if length ms > 0 then Some ms else None) \<rparr>"

text \<open>The body of the outer \<open>try\<close>: what it throws or returns, the state and the effects.\<close>

definition handleSubmit_try ::
  "submit_env \<Rightarrow> formData \<Rightarrow> AppliedMitigation list \<Rightarrow> form_state
     \<Rightarrow> (exn + unit) \<times> form_state \<times> submit_effects" where
  "handleSubmit_try env fd ms st =
     (if name fd = [] \<or> city (location fd) = [] \<or> country (location fd) = [] \<or>
         officer_name (responsible_officer fd) = []
      then (Inl (Error ''Please fill in all required fields''), st,
            \<lparr> submit_console = [], submitted = [] \<rparr>)
      else
        (case aiRiskScore env fd of
           (a, logged) \<Rightarrow>
             (onSubmit env (finalAssetData env fd a ms),
              st\<lparr> aiScoring := False \<rparr>,
              \<lparr> submit_console = logged, submitted = [finalAssetData env fd a ms] \<rparr>)))"

definition handleSubmit ::
  "submit_env \<Rightarrow> formData \<Rightarrow> AppliedMitigation list \<Rightarrow> form_state
     \<Rightarrow> form_state \<times> submit_effects" where
  "handleSubmit env fd ms st =
     (case handleSubmit_try env fd ms (st\<lparr> form_loading := True, form_error := None \<rparr>) of
        (Inl err, st', eff) \<Rightarrow>
          (st'\<lparr> form_error := Some (case err of Error m \<Rightarrow> m
                                               | NonError v \<Rightarrow> ''Failed to add asset''),
                form_loading := False \<rparr>, eff)
      | (Inr u, st', eff) \<Rightarrow> (st'\<lparr> form_loading := False \<rparr>, eff))"

section \<open>RiskManagement.tsx: the audit emitter and the delete handler\<close>

text \<open>The \<open>details\<close> payload of an audit row is a JSON value; the keys of an object
  are the property names written in the code.\<close>

datatype json = JString js_string | JNumber int | JObject "(string \<times> json) list"

record user =
  user_id :: string

text \<open>What \<open>useAuth\<close> hands to the component.\<close>

record auth =
  auth_user :: "user option"
  auth_profile :: "profile option"

text \<open>The row that \<open>logAuditEvent\<close> inserts into \<open>audit_logs\<close>.\<close>

record audit_log =
  log_user_id :: "string option"
  log_organization_id :: string
  action :: string
  resource_type :: string
  resource_id :: "string option"
  details :: "json option"
  ip_address :: "string option"
  user_agent :: string

text \<open>
  The store client is outside the component. Each of its calls either is served (the
  table is read or changed and the response carries no error), is rejected (the response
  carries an error and the table is untouched) or throws.
\<close>

datatype behaviour = Serves | Rejects exn | Throws exn

datatype 'a response = Response (data: "'a option") (response_error: "exn option")

datatype call = SelectRisk string | DeleteRisk string | InsertAudit audit_log | SelectAllRisks

record rm_env =
  confirm_answer :: bool
  on_select :: behaviour
  on_delete :: behaviour
  on_audit_insert :: behaviour
  on_fetch :: behaviour
  now :: string
  userAgent :: string

text \<open>The two tables of the store, the console, and the calls made to the store so far.\<close>

record world =
  risks_table :: "risk list"
  audit_logs :: "audit_log list"
  console :: "log_entry list"
  calls :: "call list"

text \<open>\<open>select('title, category, risk_score, status')\<close> of one row.\<close>

definition snapshot :: "risk \<Rightarrow> json" where
  "snapshot r =
     JObject [(''title'', JString (title r)), (''category'', JString (utf16 (category r))),
              (''risk_score'', JNumber (risk_score r)),
              (''status'', JString (utf16 (status r)))]"

text \<open>\<open>from('risks').select(...).eq('id', riskId).single()\<close>: the row when exactly one
  row has the id.\<close>

definition select_single :: "rm_env \<Rightarrow> string \<Rightarrow> world \<Rightarrow> (exn + json response) \<times> world" where
  "select_single env riskId w =
     (let w' = w\<lparr> calls := calls w @ [SelectRisk riskId] \<rparr> in
      case on_select env of
        Serves \<Rightarrow>
          (case filter (\<lambda>r. risk_id r = riskId) (risks_table w) of
             [r] \<Rightarrow> (Inr (Response (Some (snapshot r)) None), w')
           | _ \<Rightarrow> (Inr (Response None (Some (NonError ''no single row''))), w'))
      | Rejects e \<Rightarrow> (Inr (Response None (Some e)), w')
      | Throws e \<Rightarrow> (Inl e, w'))"

text \<open>\<open>from('risks').delete().eq('id', riskId)\<close>\<close>

definition delete_risk :: "rm_env \<Rightarrow> string \<Rightarrow> world \<Rightarrow> (exn + unit response) \<times> world" where
  "delete_risk env riskId w =
     (let w' = w\<lparr> calls := calls w @ [DeleteRisk riskId] \<rparr> in
      case on_delete env of
        Serves \<Rightarrow>
          (Inr (Response None None),
           w'\<lparr> risks_table := filter (\<lambda>r. risk_id r \<noteq> riskId) (risks_table w) \<rparr>)
      | Rejects e \<Rightarrow> (Inr (Response None (Some e)), w')
      | Throws e \<Rightarrow> (Inl e, w'))"

text \<open>\<open>from('audit_logs').insert(row)\<close>\<close>

definition insert_audit :: "rm_env \<Rightarrow> audit_log \<Rightarrow> world \<Rightarrow> (exn + unit response) \<times> world" where
  "insert_audit env row w =
     (let w' = w\<lparr> calls := calls w @ [InsertAudit row] \<rparr> in
      case on_audit_insert env of
        Serves \<Rightarrow> (Inr (Response None None), w'\<lparr> audit_logs := audit_logs w @ [row] \<rparr>)
      | Rejects e \<Rightarrow> (Inr (Response None (Some e)), w')
      | Throws e \<Rightarrow> (Inl e, w'))"

text \<open>\<open>from('risks').select('*').order('created_at', { ascending: false })\<close>\<close>

definition select_all :: "rm_env \<Rightarrow> world \<Rightarrow> (exn + risk list response) \<times> world" where
  "select_all env w =
     (let w' = w\<lparr> calls := calls w @ [SelectAllRisks] \<rparr> in
      case on_fetch env of
        Serves \<Rightarrow> (Inr (Response (Some (rev (sort_key created_at (risks_table w)))) None), w')
      | Rejects e \<Rightarrow> (Inr (Response None (Some e)), w')
      | Throws e \<Rightarrow> (Inl e, w'))"

definition fetchRisks_failed :: "exn \<Rightarrow> world \<Rightarrow> rm_state \<Rightarrow> world \<times> rm_state" where
  "fetchRisks_failed err w st =
     (w\<lparr> console := console w @ [console_error ''Error fetching risks:'' err] \<rparr>,
      st\<lparr> error := Some ''Failed to load risk data'', loading := False \<rparr>)"

definition fetchRisks :: "rm_env \<Rightarrow> world \<times> rm_state \<Rightarrow> world \<times> rm_state" where
  "fetchRisks env ws =
     (case ws of (w, st) \<Rightarrow>
        let st1 = st\<lparr> loading := True, error := None \<rparr> in
        (case select_all env w of
           (Inl err, w1) \<Rightarrow> fetchRisks_failed err w1 st1
         | (Inr resp, w1) \<Rightarrow>
             (case response_error resp of
                Some fetchError \<Rightarrow> fetchRisks_failed fetchError w1 st1
              | None \<Rightarrow>
                  (w1, st1\<lparr> risks := (case data resp of Some d \<Rightarrow> d | None \<Rightarrow> []),
                            loading := False \<rparr>))))"

text \<open>\<open>profile?.organization_id\<close>, with every falsy value (no profile, no id, the empty
  string) as \<open>None\<close>.\<close>

definition organization_scope :: "auth \<Rightarrow> string option" where
  "organization_scope a =
     (case auth_profile a of
        None \<Rightarrow> None
      | Some pr \<Rightarrow>
          (case organization_id pr of
             None \<Rightarrow> None
           | Some org \<Rightarrow> if org = [] then None else Some org))"

definition audit_row ::
  "rm_env \<Rightarrow> auth \<Rightarrow> string \<Rightarrow> string \<Rightarrow> string option \<Rightarrow> json option \<Rightarrow> audit_log" where
  "audit_row env a org act resourceId dets =
     \<lparr> log_user_id = (case auth_user a of
                        Some u \<Rightarrow> if user_id u = [] then None else Some (user_id u)
                      | None \<Rightarrow> None),
       log_organization_id = org,
       action = act,
       resource_type = ''risk'',
       resource_id = resourceId,
       details = dets,
       ip_address = None,
       user_agent = userAgent env \<rparr>"

text \<open>
  \<open>logAuditEvent\<close>: the first component is what the call throws (\<open>Inl\<close>) or that it
  returns (\<open>Inr\<close>).
\<close>

definition logAuditEvent ::
  "rm_env \<Rightarrow> auth \<Rightarrow> string \<Rightarrow> string option \<Rightarrow> json option \<Rightarrow> world
     \<Rightarrow> (exn + unit) \<times> world" where
  "logAuditEvent env a act resourceId dets w =
     (case organization_scope a of
        None \<Rightarrow>
          (Inr (),
           w\<lparr> console := console w
                 @ [console_warn ''Cannot log audit event: no organization ID available''] \<rparr>)
      | Some org \<Rightarrow>
          (case insert_audit env (audit_row env a org act resourceId dets) w of
             (Inr resp, w1) \<Rightarrow>
               (case response_error resp of
                  Some err \<Rightarrow>
                    (Inr (),
                     w1\<lparr> console := console w1
                            @ [console_error ''Error logging audit event:'' err] \<rparr>)
                | None \<Rightarrow> (Inr (), w1))
           | (Inl err, w1) \<Rightarrow>
               (Inr (),
                w1\<lparr> console := console w1
                       @ [console_error ''Unexpected error logging audit event:'' err] \<rparr>)))"

text \<open>The body of the \<open>try\<close> of \<open>handleDeleteRisk\<close>.\<close>

definition handleDeleteRisk_try ::
  "rm_env \<Rightarrow> auth \<Rightarrow> string \<Rightarrow> js_string \<Rightarrow> world \<times> rm_state
     \<Rightarrow> (exn + unit) \<times> world \<times> rm_state" where
  "handleDeleteRisk_try env a riskId riskTitle ws =
     (case ws of (w, st) \<Rightarrow>
        (case select_single env riskId w of
           (Inl err, w1) \<Rightarrow> (Inl err, w1, st)
         | (Inr sel, w1) \<Rightarrow>
             (case delete_risk env riskId w1 of
                (Inl err, w2) \<Rightarrow> (Inl err, w2, st)
              | (Inr del, w2) \<Rightarrow>
                  (case response_error del of
                     Some err \<Rightarrow> (Inl err, w2, st)
                   | None \<Rightarrow>
                       (case logAuditEvent env a ''risk_deleted'' (Some riskId)
                               (Some (JObject
                                  [(''risk_title'', JString riskTitle),
                                   (''risk_details'',
                                      (case data sel of Some riskData \<Rightarrow> riskData
                                                      | None \<Rightarrow> JObject [])),
                                   (''deleted_at'', JString (utf16 (now env)))])) w2 of
                          (Inl err, w3) \<Rightarrow> (Inl err, w3, st)
                        | (Inr u, w3) \<Rightarrow>
                            (case fetchRisks env
                                    (w3,
                                     if (case selectedRisk st of
                                           Some r \<Rightarrow> risk_id r = riskId
                                         | None \<Rightarrow> False)
                                     then st\<lparr> selectedRisk := None \<rparr> else st) of
                               (w4, st4) \<Rightarrow> (Inr (), w4, st4)))))))"

definition handleDeleteRisk ::
  "rm_env \<Rightarrow> auth \<Rightarrow> string \<Rightarrow> js_string \<Rightarrow> world \<times> rm_state \<Rightarrow> world \<times> rm_state" where
  "handleDeleteRisk env a riskId riskTitle ws =
     (case ws of (w, st) \<Rightarrow>
        if \<not> confirm_answer env then (w, st)
        else
          (case handleDeleteRisk_try env a riskId riskTitle
                  (w, st\<lparr> loading := True, error := None \<rparr>) of
             (Inl err, w', st') \<Rightarrow>
               (w'\<lparr> console := console w' @ [console_error ''Error deleting risk:'' err] \<rparr>,
                st'\<lparr> error := Some (case err of Error m \<Rightarrow> m
                                              | NonError v \<Rightarrow> ''Failed to delete risk''),
                      loading := False \<rparr>)
           | (Inr u, w', st') \<Rightarrow> (w', st'\<lparr> loading := False \<rparr>)))"

text \<open>The audit rows among a sequence of store calls, in order.\<close>

fun emitted :: "call list \<Rightarrow> audit_log list" where
  "emitted [] = []"
| "emitted (InsertAudit row # cs) = row # emitted cs"
| "emitted (c # cs) = emitted cs"

section \<open>Example data\<close>

text \<open>Three risks with the scores 5, 15 and 25, and a state of the component that
  searches for VENDOR among the identified risks of the low band. On strings of ASCII
  code units, as these are, \<open>toLowerCase\<close> adds 32 to the code units of A to Z.\<close>

definition example_toLowerCase :: "js_string \<Rightarrow> js_string" where
  "example_toLowerCase s = map (\<lambda>u. if 65 \<le> u \<and> u \<le> 90 then u + 32 else u) s"

definition example_r1 :: risk where
  "example_r1 = \<lparr> risk_id = ''r1'', title = utf16 ''Vendor outage'',
     description = utf16 ''Supplier cannot deliver'', category = ''operational'',
     status = ''identified'', risk_score = 5, created_at = 1 \<rparr>"

definition example_r2 :: risk where
  "example_r2 = \<lparr> risk_id = ''r2'', title = utf16 ''Data breach'',
     description = utf16 ''Customer records exposed'', category = ''security'',
     status = ''mitigated'', risk_score = 15, created_at = 2 \<rparr>"

definition example_r3 :: risk where
  "example_r3 = \<lparr> risk_id = ''r3'', title = utf16 ''Late filing'',
     description = utf16 ''A vendor invoice is missing'', category = ''compliance'',
     status = ''closed'', risk_score = 25, created_at = 3 \<rparr>"

definition example_state :: rm_state where
  "example_state = \<lparr> risks = [example_r1, example_r2, example_r3], loading = False,
     error = None, searchTerm = utf16 ''VENDOR'', filterCategory = ''all'',
     filterStatus = ''identified'', filterRiskLevel = ''low'',
     selectedRisk = Some example_r1 \<rparr>"

text \<open>
  A filled-in form with the score object the form starts from, an estimator that answers
  40 and one that fails, and the two mitigations of 15 and 10.
\<close>

definition example_formData :: formData where
  "example_formData =
     \<lparr> name = ''Headquarters'', asset_type = ''building'',
       location = \<lparr> address = ''1 Main Street'', city = ''Oslo'', country = ''Norway'',
                    coordinates = (0, 0) \<rparr>,
       asset_status = ''secure'',
       personnel = \<lparr> current = 0, capacity = 0, authorized = [] \<rparr>,
       security_systems =
         \<lparr> cctv = (''online'', 90), accessControl_system = (''online'', 5),
           alarms = (''online'', 20), fireSupression = (''online'', 100),
           networkSecurity = (''online'', 0) \<rparr>,
       compliance = \<lparr> lastAudit = ''2025-01-01'', nextAudit = ''2025-04-01'',
                      compliance_score = 90, issues = [] \<rparr>,
       incidents = \<lparr> incidents_total = 0, lastIncident = ''None'', severity = ''low'' \<rparr>,
       responsible_officer = \<lparr> officer_name = ''A. Berg'', email = [], phone = [],
                               officer_department = [] \<rparr>,
       form_ai_risk_score =
         \<lparr> overall = 25,
           components = \<lparr> physicalSecurity = 20, cyberSecurity = 30, accessControl = 15,
                          environmentalRisk = 25, personnelRisk = 20 \<rparr>,
           trend = ''stable'', lastUpdated = ''2025-01-01T00:00:00.000Z'', confidence = 85,
           predictions = \<lparr> nextWeek = 26, nextMonth = 24 \<rparr>,
           explanation = None \<rparr> \<rparr>"

definition example_aiResult :: aiResult where
  "example_aiResult =
     \<lparr> score = 40, ai_components = None, ai_trend = None, ai_confidence = 90,
       ai_predictions = Some \<lparr> nextWeek = 41, nextMonth = 39 \<rparr>, ai_explanation = None \<rparr>"

definition example_submit_env :: submit_env where
  "example_submit_env =
     \<lparr> submit_profile = Some \<lparr> organization_id = Some ''org1'', department = None \<rparr>,
       scoreAssetRisk = (\<lambda>asset. Inr example_aiResult),
       onSubmit = (\<lambda>asset. Inr ()),
       submit_now = ''2025-01-02T00:00:00.000Z'',
       random_predictions = (\<lambda>score. \<lparr> nextWeek = score, nextMonth = score \<rparr>) \<rparr>"

definition example_failing_env :: submit_env where
  "example_failing_env =
     example_submit_env\<lparr> scoreAssetRisk := (\<lambda>asset. Inl (Error ''estimator unreachable'')) \<rparr>"

definition example_mitigations :: "AppliedMitigation list" where
  "example_mitigations =
     [\<lparr> mitigation_id = ''m1'', mitigation_description = ''Guards'',
        applied_risk_reduction_score = 15 \<rparr>,
      \<lparr> mitigation_id = ''m2'', mitigation_description = ''Fence'',
        applied_risk_reduction_score = 10 \<rparr>]"

definition example_form_state :: form_state where
  "example_form_state = \<lparr> form_loading = False, form_error = None, aiScoring = False \<rparr>"

text \<open>
  A store holding the three risks, a signed-in user with an organization, and an
  environment in which every store call is served except the audit insert, which throws.
\<close>

definition example_env :: rm_env where
  "example_env =
     \<lparr> confirm_answer = True, on_select = Serves, on_delete = Serves,
       on_audit_insert = Throws (Error ''audit store unavailable''), on_fetch = Serves,
       now = ''2025-01-02T00:00:00.000Z'', userAgent = ''Mozilla/5.0'' \<rparr>"

definition example_auth :: auth where
  "example_auth =
     \<lparr> auth_user = Some \<lparr> user_id = ''u1'' \<rparr>,
       auth_profile = Some \<lparr> organization_id = Some ''org1'', department = None \<rparr> \<rparr>"

definition example_world :: world where
  "example_world =
     \<lparr> risks_table = [example_r1, example_r2, example_r3], audit_logs = [], console = [],
       calls = [] \<rparr>"

section \<open>The severity classifier\<close>

text \<open>
  C2. \<open>getRiskLevel\<close> is a total function of the integer score: it answers Low exactly
  for scores up to 5, Medium exactly for 6 to 12, High exactly for 13 to 20 and Critical
  exactly for 21 and above, so a score beyond 25 is still Critical.
\<close>

theorem getRiskLevel_bands:
  "(getRiskLevel s = ''Low'' \<longleftrightarrow> s \<le> 5) \<and>
   (getRiskLevel s = ''Medium'' \<longleftrightarrow> 6 \<le> s \<and> s \<le> 12) \<and>
   (getRiskLevel s = ''High'' \<longleftrightarrow> 13 \<le> s \<and> s \<le> 20) \<and>
   (getRiskLevel s = ''Critical'' \<longleftrightarrow> 21 \<le> s)"
  by (simp add: getRiskLevel_def)

theorem getRiskLevel_bands_witness:
  "getRiskLevel 5 = ''Low'' \<and> getRiskLevel 12 = ''Medium'' \<and> getRiskLevel 13 = ''High'' \<and>
   getRiskLevel 21 = ''Critical'' \<and> getRiskLevel 100 = ''Critical''"
  using getRiskLevel_bands [of 5] getRiskLevel_bands [of 12] getRiskLevel_bands [of 13]
    getRiskLevel_bands [of 21] getRiskLevel_bands [of 100]
  by simp

text \<open>
  C10. The three codings of the band thresholds agree. A risk passes the risk-level
  filter set to low, medium, high or critical exactly when \<open>getRiskLevel\<close> of its score
  is Low, Medium, High or Critical, and each per-band count of \<open>riskStats\<close> is the number
  of risks that \<open>getRiskLevel\<close> puts into that band.
\<close>

theorem band_thresholds_agree:
  "(matchesRiskLevel (st\<lparr> filterRiskLevel := ''low'' \<rparr>) r
      \<longleftrightarrow> getRiskLevel (risk_score r) = ''Low'') \<and>
   (matchesRiskLevel (st\<lparr> filterRiskLevel := ''medium'' \<rparr>) r
      \<longleftrightarrow> getRiskLevel (risk_score r) = ''Medium'') \<and>
   (matchesRiskLevel (st\<lparr> filterRiskLevel := ''high'' \<rparr>) r
      \<longleftrightarrow> getRiskLevel (risk_score r) = ''High'') \<and>
   (matchesRiskLevel (st\<lparr> filterRiskLevel := ''critical'' \<rparr>) r
      \<longleftrightarrow> getRiskLevel (risk_score r) = ''Critical'') \<and>
   low (riskStats st) = length (filter (\<lambda>r. getRiskLevel (risk_score r) = ''Low'') (risks st)) \<and>
   medium (riskStats st)
     = length (filter (\<lambda>r. getRiskLevel (risk_score r) = ''Medium'') (risks st)) \<and>
   high (riskStats st) = length (filter (\<lambda>r. getRiskLevel (risk_score r) = ''High'') (risks st)) \<and>
   critical (riskStats st)
     = length (filter (\<lambda>r. getRiskLevel (risk_score r) = ''Critical'') (risks st))"
proof -
  have lev: "\<And>s. (getRiskLevel s = ''Low'' \<longleftrightarrow> s \<le> 5) \<and>
      (getRiskLevel s = ''Medium'' \<longleftrightarrow> 5 < s \<and> s \<le> 12) \<and>
      (getRiskLevel s = ''High'' \<longleftrightarrow> 12 < s \<and> s \<le> 20) \<and>
      (getRiskLevel s = ''Critical'' \<longleftrightarrow> 20 < s)"
    by (simp add: getRiskLevel_def)
  show ?thesis
    by (simp add: matchesRiskLevel_def riskStats_def lev)
qed

theorem band_thresholds_agree_witness:
  "matchesRiskLevel (example_state\<lparr> filterRiskLevel := ''high'' \<rparr>) example_r2 \<and>
   getRiskLevel (risk_score example_r2) = ''High'' \<and>
   \<not> matchesRiskLevel (example_state\<lparr> filterRiskLevel := ''critical'' \<rparr>) example_r2 \<and>
   high (riskStats example_state) = 1"
proof -
  have lev: "getRiskLevel (risk_score example_r2) = ''High''"
    by (simp add: getRiskLevel_def example_r2_def)
  have cnt: "length (filter (\<lambda>r. getRiskLevel (risk_score r) = ''High'') (risks example_state)) = 1"
    by (simp add: getRiskLevel_def example_state_def example_r1_def example_r2_def
        example_r3_def)
  from band_thresholds_agree [of example_state example_r2] lev cnt show ?thesis
    by simp
qed

section \<open>The filter\<close>

lemma startsWith_iff: "startsWith s t \<longleftrightarrow> (\<exists>post. s = t @ post)"
  by (induction s t rule: startsWith.induct) auto

lemma includes_str_iff: "includes_str s t \<longleftrightarrow> (\<exists>pre post. s = pre @ t @ post)"
proof (induction s)
  case Nil
  then show ?case by auto
next
  case (Cons a s)
  have "(\<exists>pre post. a # s = pre @ t @ post)
          \<longleftrightarrow> (\<exists>post. a # s = t @ post) \<or> (\<exists>pre post. s = pre @ t @ post)"
  proof
    assume "\<exists>pre post. a # s = pre @ t @ post"
    then obtain pre post where eq: "a # s = pre @ t @ post" by blast
    show "(\<exists>post. a # s = t @ post) \<or> (\<exists>pre post. s = pre @ t @ post)"
    proof (cases pre)
      case Nil
      with eq show ?thesis by auto
    next
      case (Cons b pre')
      with eq have "s = pre' @ t @ post" by simp
      then show ?thesis by blast
    qed
  next
    assume "(\<exists>post. a # s = t @ post) \<or> (\<exists>pre post. s = pre @ t @ post)"
    then show "\<exists>pre post. a # s = pre @ t @ post"
    proof
      assume "\<exists>post. a # s = t @ post"
      then obtain post where "a # s = [] @ t @ post" by auto
      then show ?thesis by blast
    next
      assume "\<exists>pre post. s = pre @ t @ post"
      then obtain pre post where "a # s = (a # pre) @ t @ post" by auto
      then show ?thesis by blast
    qed
  qed
  with Cons show ?case by (simp add: startsWith_iff del: startsWith.simps)
qed

lemma includes_str_empty: "includes_str s []"
  by (cases s) simp_all

lemma matchesRiskLevel_iff:
  "matchesRiskLevel st r \<longleftrightarrow>
     (filterRiskLevel st = ''low'' \<longrightarrow> risk_score r \<le> 5) \<and>
     (filterRiskLevel st = ''medium'' \<longrightarrow> 6 \<le> risk_score r \<and> risk_score r \<le> 12) \<and>
     (filterRiskLevel st = ''high'' \<longrightarrow> 13 \<le> risk_score r \<and> risk_score r \<le> 20) \<and>
     (filterRiskLevel st = ''critical'' \<longrightarrow> 21 \<le> risk_score r)"
  by (auto simp: matchesRiskLevel_def)

text \<open>
  C3. Whatever \<open>toLowerCase\<close> is, the filtered list holds only risks of the collection,
  and a risk of the collection is in it exactly when it passes every predicate: the
  lower-cased search term occurs in the lower-cased title or in the lower-cased
  description, the category is the requested one or the setting is \<open>all\<close>, likewise
  the status, and the score lies in the requested band. Search terms with the same lower
  case select the same risks. A predicate set to \<open>all\<close> passes every risk, and so does
  the empty search term (the lower case of the empty string being empty).
\<close>

theorem filteredRisks_conjunctive:
  "set (filteredRisks toLowerCase st) \<subseteq> set (risks st) \<and>
   (\<forall>r \<in> set (risks st).
      r \<in> set (filteredRisks toLowerCase st) \<longleftrightarrow>
        ((\<exists>pre post. toLowerCase (title r) = pre @ toLowerCase (searchTerm st) @ post) \<or>
         (\<exists>pre post. toLowerCase (description r) = pre @ toLowerCase (searchTerm st) @ post)) \<and>
        (filterCategory st = ''all'' \<or> category r = filterCategory st) \<and>
        (filterStatus st = ''all'' \<or> status r = filterStatus st) \<and>
        (filterRiskLevel st = ''low'' \<longrightarrow> risk_score r \<le> 5) \<and>
        (filterRiskLevel st = ''medium'' \<longrightarrow> 6 \<le> risk_score r \<and> risk_score r \<le> 12) \<and>
        (filterRiskLevel st = ''high'' \<longrightarrow> 13 \<le> risk_score r \<and> risk_score r \<le> 20) \<and>
        (filterRiskLevel st = ''critical'' \<longrightarrow> 21 \<le> risk_score r)) \<and>
   (\<forall>t. toLowerCase t = toLowerCase (searchTerm st) \<longrightarrow>
        filteredRisks toLowerCase (st\<lparr> searchTerm := t \<rparr>) = filteredRisks toLowerCase st) \<and>
   (searchTerm st = [] \<and> toLowerCase [] = [] \<longrightarrow> (\<forall>r. matchesSearch toLowerCase st r)) \<and>
   (filterCategory st = ''all'' \<longrightarrow> (\<forall>r. matchesCategory st r)) \<and>
   (filterStatus st = ''all'' \<longrightarrow> (\<forall>r. matchesStatus st r)) \<and>
   (filterRiskLevel st = ''all'' \<longrightarrow> (\<forall>r. matchesRiskLevel st r))"
proof (intro conjI)
  show "set (filteredRisks toLowerCase st) \<subseteq> set (risks st)"
    by (simp add: filteredRisks_def)
  show "\<forall>r \<in> set (risks st).
      r \<in> set (filteredRisks toLowerCase st) \<longleftrightarrow>
        ((\<exists>pre post. toLowerCase (title r) = pre @ toLowerCase (searchTerm st) @ post) \<or>
         (\<exists>pre post. toLowerCase (description r) = pre @ toLowerCase (searchTerm st) @ post)) \<and>
        (filterCategory st = ''all'' \<or> category r = filterCategory st) \<and>
        (filterStatus st = ''all'' \<or> status r = filterStatus st) \<and>
        (filterRiskLevel st = ''low'' \<longrightarrow> risk_score r \<le> 5) \<and>
        (filterRiskLevel st = ''medium'' \<longrightarrow> 6 \<le> risk_score r \<and> risk_score r \<le> 12) \<and>
        (filterRiskLevel st = ''high'' \<longrightarrow> 13 \<le> risk_score r \<and> risk_score r \<le> 20) \<and>
        (filterRiskLevel st = ''critical'' \<longrightarrow> 21 \<le> risk_score r)"
    by (simp add: filteredRisks_def matchesSearch_def includes_str_iff
        matchesCategory_def matchesStatus_def matchesRiskLevel_iff)
  show "\<forall>t. toLowerCase t = toLowerCase (searchTerm st) \<longrightarrow>
        filteredRisks toLowerCase (st\<lparr> searchTerm := t \<rparr>) = filteredRisks toLowerCase st"
    by (simp add: filteredRisks_def matchesSearch_def matchesCategory_def matchesStatus_def
        matchesRiskLevel_def)
  show "searchTerm st = [] \<and> toLowerCase [] = [] \<longrightarrow> (\<forall>r. matchesSearch toLowerCase st r)"
    by (simp add: matchesSearch_def includes_str_empty)
  show "filterCategory st = ''all'' \<longrightarrow> (\<forall>r. matchesCategory st r)"
    by (simp add: matchesCategory_def)
  show "filterStatus st = ''all'' \<longrightarrow> (\<forall>r. matchesStatus st r)"
    by (simp add: matchesStatus_def)
  show "filterRiskLevel st = ''all'' \<longrightarrow> (\<forall>r. matchesRiskLevel st r)"
    by (simp add: matchesRiskLevel_def)
qed

lemma example_filtered: "filteredRisks example_toLowerCase example_state = [example_r1]"
  by (simp add: filteredRisks_def example_state_def example_r1_def example_r2_def
      example_r3_def matchesSearch_def matchesCategory_def matchesStatus_def
      matchesRiskLevel_def example_toLowerCase_def utf16_def)

lemma example_filtered_by_search:
  "filteredRisks example_toLowerCase
     (example_state\<lparr> filterStatus := ''all'', filterRiskLevel := ''all'' \<rparr>)
   = [example_r1, example_r3]"
  by (simp add: filteredRisks_def example_state_def example_r1_def example_r2_def
      example_r3_def matchesSearch_def matchesCategory_def matchesStatus_def
      matchesRiskLevel_def example_toLowerCase_def utf16_def)

lemma example_risks_distinct:
  "example_r2 \<noteq> example_r1" "example_r2 \<noteq> example_r3" "example_r3 \<noteq> example_r1"
  by (simp_all add: example_r1_def example_r2_def example_r3_def)

theorem filteredRisks_conjunctive_witness:
  "example_r1 \<in> set (risks example_state) \<and>
   example_r1 \<in> set (filteredRisks example_toLowerCase example_state) \<and>
   ((\<exists>pre post. example_toLowerCase (title example_r1)
                  = pre @ example_toLowerCase (utf16 ''VENDOR'') @ post) \<or>
    (\<exists>pre post. example_toLowerCase (description example_r1)
                  = pre @ example_toLowerCase (utf16 ''VENDOR'') @ post)) \<and>
   risk_score example_r1 \<le> 5 \<and>
   example_r3 \<in> set (risks example_state) \<and>
   example_r3 \<notin> set (filteredRisks example_toLowerCase example_state) \<and>
   \<not> (filterStatus example_state = ''all''
        \<or> status example_r3 = filterStatus example_state) \<and>
   example_r2 \<in> set (risks (example_state\<lparr> filterStatus := ''all'', filterRiskLevel := ''all'' \<rparr>)) \<and>
   example_r2 \<notin> set (filteredRisks example_toLowerCase
                         (example_state\<lparr> filterStatus := ''all'', filterRiskLevel := ''all'' \<rparr>)) \<and>
   \<not> ((\<exists>pre post. example_toLowerCase (title example_r2)
                     = pre @ example_toLowerCase (utf16 ''VENDOR'') @ post) \<or>
       (\<exists>pre post. example_toLowerCase (description example_r2)
                     = pre @ example_toLowerCase (utf16 ''VENDOR'') @ post)) \<and>
   example_toLowerCase (utf16 ''vendor'') = example_toLowerCase (searchTerm example_state) \<and>
   filteredRisks example_toLowerCase (example_state\<lparr> searchTerm := utf16 ''vendor'' \<rparr>)
     = filteredRisks example_toLowerCase example_state"
proof -
  let ?any = "example_state\<lparr> filterStatus := ''all'', filterRiskLevel := ''all'' \<rparr>"
  note main = filteredRisks_conjunctive [of example_toLowerCase example_state]
  note wide = filteredRisks_conjunctive [of example_toLowerCase ?any]
  have trm: "searchTerm example_state = utf16 ''VENDOR''"
    "searchTerm ?any = utf16 ''VENDOR''"
    by (simp_all add: example_state_def)
  have mem: "example_r1 \<in> set (risks example_state)" "example_r3 \<in> set (risks example_state)"
    "example_r2 \<in> set (risks ?any)"
    by (simp_all add: example_state_def)
  have sel: "example_r1 \<in> set (filteredRisks example_toLowerCase example_state)"
    "example_r3 \<notin> set (filteredRisks example_toLowerCase example_state)"
    by (simp_all add: example_filtered example_risks_distinct)
  have out: "example_r2 \<notin> set (filteredRisks example_toLowerCase ?any)"
    by (simp add: example_filtered_by_search example_risks_distinct)
  have cfg: "\<not> (filterStatus example_state = ''all''
        \<or> status example_r3 = filterStatus example_state)"
    "filterRiskLevel example_state = ''low''"
    by (simp_all add: example_state_def example_r3_def)
  have any: "filterCategory ?any = ''all''" "filterStatus ?any = ''all''"
    "filterRiskLevel ?any = ''all''"
    by (simp_all add: example_state_def)
  have low: "example_toLowerCase (utf16 ''vendor'')
      = example_toLowerCase (searchTerm example_state)"
    by (simp add: example_state_def example_toLowerCase_def utf16_def)
  from main [THEN conjunct2, THEN conjunct1, THEN bspec, OF mem(1)] sel(1) cfg(2)
  have kept: "((\<exists>pre post. example_toLowerCase (title example_r1)
                  = pre @ example_toLowerCase (utf16 ''VENDOR'') @ post) \<or>
    (\<exists>pre post. example_toLowerCase (description example_r1)
                  = pre @ example_toLowerCase (utf16 ''VENDOR'') @ post)) \<and>
   risk_score example_r1 \<le> 5"
    by (simp add: trm)
  from wide [THEN conjunct2, THEN conjunct1, THEN bspec, OF mem(3)] out any
  have dropped: "\<not> ((\<exists>pre post. example_toLowerCase (title example_r2)
                     = pre @ example_toLowerCase (utf16 ''VENDOR'') @ post) \<or>
       (\<exists>pre post. example_toLowerCase (description example_r2)
                     = pre @ example_toLowerCase (utf16 ''VENDOR'') @ post))"
    by (simp add: trm)
  from main [THEN conjunct2, THEN conjunct2, THEN conjunct1, THEN spec, THEN mp, OF low]
  have same: "filteredRisks example_toLowerCase (example_state\<lparr> searchTerm := utf16 ''vendor'' \<rparr>)
     = filteredRisks example_toLowerCase example_state" .
  from mem sel kept cfg(1) out dropped low same show ?thesis
    by (intro conjI) simp_all
qed

section \<open>The statistics\<close>

lemma foldl_add_sum_list:
  "foldl (\<lambda>sum x. sum + f x) (a::int) xs = a + sum_list (map f xs)"
  by (induction xs arbitrary: a) simp_all

lemma totalRiskReduction_sum_list:
  "totalRiskReduction ms = sum_list (map applied_risk_reduction_score ms)"
  by (simp add: totalRiskReduction_def foldl_add_sum_list)

lemma band_counts_partition:
  "length (filter (\<lambda>r. risk_score r \<le> 5) rs)
   + length (filter (\<lambda>r. risk_score r > 5 \<and> risk_score r \<le> 12) rs)
   + length (filter (\<lambda>r. risk_score r > 12 \<and> risk_score r \<le> 20) rs)
   + length (filter (\<lambda>r. risk_score r > 20) rs) = length rs"
  by (induction rs) auto

lemma Math_round_nearest: "\<bar>of_int (Math_round x) - x\<bar> \<le> 1 / 2"
  unfolding Math_round_def by linarith

text \<open>
  C4. \<open>riskStats\<close> reads the whole collection and none of the filter settings. The total
  is the length of the collection, the four band counts add up to it, the open count is
  the number of risks that are neither mitigated nor closed, and the average is the mean
  of the scores rounded to the nearest integer: 0 on the empty collection, 15 on the
  scores 5, 15 and 25.
\<close>

theorem riskStats_over_full_collection:
  "total (riskStats st) = length (risks st) \<and>
   low (riskStats st) + medium (riskStats st) + high (riskStats st) + critical (riskStats st)
     = total (riskStats st) \<and>
   open_count (riskStats st)
     = length (filter (\<lambda>r. status r \<noteq> ''mitigated'' \<and> status r \<noteq> ''closed'') (risks st)) \<and>
   (risks st = [] \<longrightarrow> avgScore (riskStats st) = 0) \<and>
   (risks st \<noteq> [] \<longrightarrow>
      avgScore (riskStats st)
        = \<lfloor>of_int (sum_list (map risk_score (risks st))) / of_nat (length (risks st))
            + (1 / 2 :: rat)\<rfloor> \<and>
      \<bar>of_int (avgScore (riskStats st))
         - of_int (sum_list (map risk_score (risks st))) / of_nat (length (risks st))\<bar>
        \<le> (1 / 2 :: rat)) \<and>
   (map risk_score (risks st) = [5, 15, 25] \<longrightarrow> avgScore (riskStats st) = 15) \<and>
   riskStats (st\<lparr> searchTerm := q, filterCategory := c, filterStatus := s,
                   filterRiskLevel := l \<rparr>) = riskStats st"
proof (intro conjI impI)
  show "total (riskStats st) = length (risks st)"
    by (simp add: riskStats_def)
  show "low (riskStats st) + medium (riskStats st) + high (riskStats st)
          + critical (riskStats st) = total (riskStats st)"
    using band_counts_partition [of "risks st"] by (simp add: riskStats_def)
  show "open_count (riskStats st)
     = length (filter (\<lambda>r. status r \<noteq> ''mitigated'' \<and> status r \<noteq> ''closed'') (risks st))"
    by (simp add: riskStats_def conj_commute)
  show "avgScore (riskStats st) = 0" if "risks st = []"
    using that by (simp add: riskStats_def)
  have avg: "avgScore (riskStats st)
      = Math_round (of_int (sum_list (map risk_score (risks st))) / of_nat (length (risks st)))"
    if "risks st \<noteq> []"
    using that by (simp add: riskStats_def foldl_add_sum_list)
  show "avgScore (riskStats st)
        = \<lfloor>of_int (sum_list (map risk_score (risks st))) / of_nat (length (risks st))
            + (1 / 2 :: rat)\<rfloor>" if "risks st \<noteq> []"
    using avg [OF that] by (simp add: Math_round_def)
  show "\<bar>of_int (avgScore (riskStats st))
         - of_int (sum_list (map risk_score (risks st))) / of_nat (length (risks st))\<bar>
        \<le> (1 / 2 :: rat)" if "risks st \<noteq> []"
    unfolding avg [OF that] by (rule Math_round_nearest)
  show "avgScore (riskStats st) = 15" if m: "map risk_score (risks st) = [5, 15, 25]"
  proof -
    from m have ne: "risks st \<noteq> []" by auto
    from m have len: "length (risks st) = 3"
      by (metis length_map length_Cons list.size(3) numeral_3_eq_3)
    have "Math_round (45 / 3) = 15"
      unfolding Math_round_def by (simp add: floor_eq_iff)
    with avg [OF ne] m len show ?thesis by simp
  qed
  show "riskStats (st\<lparr> searchTerm := q, filterCategory := c, filterStatus := s,
                   filterRiskLevel := l \<rparr>) = riskStats st"
    by (simp add: riskStats_def)
qed

theorem riskStats_over_full_collection_witness:
  "risks example_state \<noteq> [] \<and>
   map risk_score (risks example_state) = [5, 15, 25] \<and>
   avgScore (riskStats example_state) = 15 \<and>
   \<bar>of_int (avgScore (riskStats example_state))
      - of_int (sum_list (map risk_score (risks example_state)))
        / of_nat (length (risks example_state))\<bar> \<le> (1 / 2 :: rat) \<and>
   total (riskStats example_state) = 3 \<and>
   riskStats (example_state\<lparr> risks := [] \<rparr>)
     = \<lparr> total = 0, critical = 0, high = 0, medium = 0, low = 0, open_count = 0,
         avgScore = 0 \<rparr>"
proof -
  have ne: "risks example_state \<noteq> []"
    by (simp add: example_state_def)
  have sc: "map risk_score (risks example_state) = [5, 15, 25]"
    by (simp add: example_state_def example_r1_def example_r2_def example_r3_def)
  have emp: "riskStats (example_state\<lparr> risks := [] \<rparr>)
     = \<lparr> total = 0, critical = 0, high = 0, medium = 0, low = 0, open_count = 0,
         avgScore = 0 \<rparr>"
    by (simp add: riskStats_def)
  note stats = riskStats_over_full_collection [where st = example_state and q = "[]"
      and c = "[]" and s = "[]" and l = "[]"]
  note rest = stats [THEN conjunct2, THEN conjunct2, THEN conjunct2, THEN conjunct2]
  have avg15: "avgScore (riskStats example_state) = 15"
    by (rule rest [THEN conjunct2, THEN conjunct1, THEN mp, OF sc])
  have near: "\<bar>of_int (avgScore (riskStats example_state))
      - of_int (sum_list (map risk_score (risks example_state)))
        / of_nat (length (risks example_state))\<bar> \<le> (1 / 2 :: rat)"
    by (rule rest [THEN conjunct1, THEN mp, OF ne, THEN conjunct2])
  have "total (riskStats example_state) = length (risks example_state)"
    by (rule stats [THEN conjunct1])
  then have tot: "total (riskStats example_state) = 3"
    by (simp add: example_state_def)
  from ne sc avg15 near tot emp show ?thesis
    by (intro conjI)
qed

section \<open>The effective score of a new asset\<close>

text \<open>
  C1. The overall score stored with a new asset is the base score minus the sum of the
  reductions of the applied mitigations, floored at 0: it is never negative, it is the
  difference when that is not negative, and 0 otherwise.
\<close>

theorem effective_score_is_floored_difference:
  "overall (ai_risk_score (finalAssetData env fd a ms))
     = max 0 (overall a - sum_list (map applied_risk_reduction_score ms)) \<and>
   0 \<le> overall (ai_risk_score (finalAssetData env fd a ms)) \<and>
   overall (ai_risk_score (finalAssetData env fd a ms))
     = (if 0 \<le> overall a - sum_list (map applied_risk_reduction_score ms)
        then overall a - sum_list (map applied_risk_reduction_score ms) else 0)"
  by (simp add: finalAssetData_def updatedRiskScore_def effectiveRiskScore_def
      totalRiskReduction_sum_list)

lemma handleSubmit_submitted:
  "submitted (snd (handleSubmit env fd ms st)) =
     (if name fd = [] \<or> city (location fd) = [] \<or> country (location fd) = [] \<or>
         officer_name (responsible_officer fd) = []
      then [] else [finalAssetData env fd (fst (aiRiskScore env fd)) ms])"
  by (simp add: handleSubmit_def handleSubmit_try_def split: prod.splits sum.splits)

lemma example_valid:
  "name example_formData \<noteq> []" "city (location example_formData) \<noteq> []"
  "country (location example_formData) \<noteq> []"
  "officer_name (responsible_officer example_formData) \<noteq> []"
  by (simp_all add: example_formData_def)

lemma example_aiRiskScore:
  "overall (fst (aiRiskScore example_submit_env example_formData)) = 40"
  by (simp add: aiRiskScore_def example_submit_env_def example_aiResult_def)

theorem effective_score_is_floored_difference_witness:
  "overall (ai_risk_score (finalAssetData example_submit_env example_formData
      (fst (aiRiskScore example_submit_env example_formData)) example_mitigations)) = 15 \<and>
   overall (ai_risk_score (finalAssetData example_submit_env example_formData
      (form_ai_risk_score example_formData) (example_mitigations @ example_mitigations))) = 0"
proof -
  have red: "sum_list (map applied_risk_reduction_score example_mitigations) = 25"
    by (simp add: example_mitigations_def)
  have base: "overall (form_ai_risk_score example_formData) = 25"
    by (simp add: example_formData_def)
  from effective_score_is_floored_difference [of example_submit_env example_formData
      "fst (aiRiskScore example_submit_env example_formData)" example_mitigations]
    effective_score_is_floored_difference [of example_submit_env example_formData
      "form_ai_risk_score example_formData" "example_mitigations @ example_mitigations"]
    red base
  show ?thesis by (simp add: example_aiRiskScore)
qed

text \<open>
  C6. The score object written into a new asset keeps the base score as
  \<open>originalScore\<close> and the sum of the reductions as \<open>totalRiskReduction\<close> next to
  the effective score in \<open>overall\<close>; the effective score is recomputable from the two.
  This holds of \<open>updatedRiskScore\<close> and of every asset that \<open>handleSubmit\<close> hands to
  \<open>onSubmit\<close>.
\<close>

theorem original_score_retained:
  "originalScore (updatedRiskScore a ms) = overall a \<and>
   totalRiskReduction_field (updatedRiskScore a ms)
     = sum_list (map applied_risk_reduction_score ms) \<and>
   overall (updatedRiskScore a ms)
     = max 0 (originalScore (updatedRiskScore a ms)
              - totalRiskReduction_field (updatedRiskScore a ms)) \<and>
   (\<forall>x \<in> set (submitted (snd (handleSubmit env fd ms st))).
      originalScore (ai_risk_score x) = overall (fst (aiRiskScore env fd)) \<and>
      totalRiskReduction_field (ai_risk_score x)
        = sum_list (map applied_risk_reduction_score ms) \<and>
      overall (ai_risk_score x)
        = max 0 (originalScore (ai_risk_score x) - totalRiskReduction_field (ai_risk_score x)))"
  by (simp add: handleSubmit_submitted finalAssetData_def updatedRiskScore_def
      effectiveRiskScore_def totalRiskReduction_sum_list)

theorem original_score_retained_witness:
  "finalAssetData example_submit_env example_formData
     (fst (aiRiskScore example_submit_env example_formData)) example_mitigations
   \<in> set (submitted (snd (handleSubmit example_submit_env example_formData
                            example_mitigations example_form_state))) \<and>
   originalScore (ai_risk_score (finalAssetData example_submit_env example_formData
     (fst (aiRiskScore example_submit_env example_formData)) example_mitigations)) = 40 \<and>
   totalRiskReduction_field (ai_risk_score (finalAssetData example_submit_env example_formData
     (fst (aiRiskScore example_submit_env example_formData)) example_mitigations)) = 25 \<and>
   overall (ai_risk_score (finalAssetData example_submit_env example_formData
     (fst (aiRiskScore example_submit_env example_formData)) example_mitigations)) = 15"
proof -
  have mem: "finalAssetData example_submit_env example_formData
     (fst (aiRiskScore example_submit_env example_formData)) example_mitigations
   \<in> set (submitted (snd (handleSubmit example_submit_env example_formData
                            example_mitigations example_form_state)))"
    by (simp add: handleSubmit_submitted example_valid)
  have red: "sum_list (map applied_risk_reduction_score example_mitigations) = 25"
    by (simp add: example_mitigations_def)
  from original_score_retained [of "fst (aiRiskScore example_submit_env example_formData)"
      example_mitigations example_submit_env example_formData example_form_state] mem red
  show ?thesis by (simp add: example_aiRiskScore)
qed

text \<open>
  C5, as the code has it. The applied-mitigations field of a new asset is the list itself
  when the list is not empty and the null value when it is empty: the create flow does not
  keep an empty sequence apart from an absent one.
\<close>

theorem mitigations_stored_or_null:
  "mitigations (finalAssetData env fd a ms) = (if ms = [] then None else Some ms) \<and>
   (\<forall>x \<in> set (submitted (snd (handleSubmit env fd ms st))).
      mitigations x = (if ms = [] then None else Some ms))"
  by (simp add: handleSubmit_submitted finalAssetData_def)

theorem mitigations_stored_or_null_witness:
  "finalAssetData example_submit_env example_formData
     (fst (aiRiskScore example_submit_env example_formData)) example_mitigations
   \<in> set (submitted (snd (handleSubmit example_submit_env example_formData
                            example_mitigations example_form_state))) \<and>
   mitigations (finalAssetData example_submit_env example_formData
     (fst (aiRiskScore example_submit_env example_formData)) example_mitigations)
   = Some example_mitigations"
proof -
  have mem: "finalAssetData example_submit_env example_formData
     (fst (aiRiskScore example_submit_env example_formData)) example_mitigations
   \<in> set (submitted (snd (handleSubmit example_submit_env example_formData
                            example_mitigations example_form_state)))"
    by (simp add: handleSubmit_submitted example_valid)
  have ne: "example_mitigations \<noteq> []"
    by (simp add: example_mitigations_def)
  from mitigations_stored_or_null [of example_submit_env example_formData
      "fst (aiRiskScore example_submit_env example_formData)" example_mitigations
      example_form_state] mem ne
  show ?thesis by simp
qed

text \<open>
  The claim C5 as stated asks for the empty sequence to be stored. Creating the example
  asset with no mitigations stores the null value.
\<close>

theorem empty_mitigations_become_null:
  "map mitigations
     (submitted (snd (handleSubmit example_submit_env example_formData [] example_form_state)))
     = [None] \<and>
   map mitigations
     (submitted (snd (handleSubmit example_submit_env example_formData [] example_form_state)))
     \<noteq> [Some []]"
  by (simp add: handleSubmit_submitted example_valid finalAssetData_def)

text \<open>
  C8. When the form is complete and the estimator call fails, \<open>handleSubmit\<close> logs the
  failure, keeps the score object of the form as the base, and hands the asset to
  \<open>onSubmit\<close>; the error shown afterwards is the one of \<open>onSubmit\<close> alone, so none when
  \<open>onSubmit\<close> succeeds.
\<close>

theorem estimator_failure_falls_back:
  assumes "name fd \<noteq> []" and "city (location fd) \<noteq> []" and "country (location fd) \<noteq> []"
    and "officer_name (responsible_officer fd) \<noteq> []"
    and "scoreAssetRisk env (assetData env fd) = Inl e"
  shows "submitted (snd (handleSubmit env fd ms st))
           = [finalAssetData env fd (form_ai_risk_score fd) ms] \<and>
         originalScore (ai_risk_score (finalAssetData env fd (form_ai_risk_score fd) ms))
           = overall (form_ai_risk_score fd) \<and>
         submit_console (snd (handleSubmit env fd ms st))
           = [console_error ''Error getting AI risk score:'' e] \<and>
         form_error (fst (handleSubmit env fd ms st))
           = (case onSubmit env (finalAssetData env fd (form_ai_risk_score fd) ms) of
                Inr u \<Rightarrow> None
              | Inl (Error m) \<Rightarrow> Some m
              | Inl (NonError v) \<Rightarrow> Some ''Failed to add asset'') \<and>
         form_loading (fst (handleSubmit env fd ms st)) = False \<and>
         aiScoring (fst (handleSubmit env fd ms st)) = False"
  using assms
  by (simp add: handleSubmit_def handleSubmit_try_def aiRiskScore_def finalAssetData_def
      updatedRiskScore_def split: sum.splits exn.splits)

theorem estimator_failure_falls_back_witness:
  "name example_formData \<noteq> [] \<and> city (location example_formData) \<noteq> [] \<and>
   country (location example_formData) \<noteq> [] \<and>
   officer_name (responsible_officer example_formData) \<noteq> [] \<and>
   scoreAssetRisk example_failing_env (assetData example_failing_env example_formData)
     = Inl (Error ''estimator unreachable'') \<and>
   submitted (snd (handleSubmit example_failing_env example_formData example_mitigations
                     example_form_state))
     = [finalAssetData example_failing_env example_formData
          (form_ai_risk_score example_formData) example_mitigations] \<and>
   originalScore (ai_risk_score (finalAssetData example_failing_env example_formData
          (form_ai_risk_score example_formData) example_mitigations)) = 25 \<and>
   form_error (fst (handleSubmit example_failing_env example_formData example_mitigations
                     example_form_state)) = None"
proof -
  have f: "scoreAssetRisk example_failing_env (assetData example_failing_env example_formData)
     = Inl (Error ''estimator unreachable'')"
    by (simp add: example_failing_env_def)
  have ok: "onSubmit example_failing_env (finalAssetData example_failing_env example_formData
          (form_ai_risk_score example_formData) example_mitigations) = Inr ()"
    by (simp add: example_failing_env_def example_submit_env_def)
  have d: "overall (form_ai_risk_score example_formData) = 25"
    by (simp add: example_formData_def)
  from estimator_failure_falls_back [OF example_valid f, of example_mitigations
      example_form_state] ok d example_valid f
  show ?thesis by simp
qed

section \<open>The audit emitter\<close>

lemma logAuditEvent_returns: "fst (logAuditEvent env a act rid d w) = Inr ()"
  by (simp add: logAuditEvent_def insert_audit_def Let_def
      split: option.splits behaviour.splits)

lemma logAuditEvent_risks_table:
  "risks_table (snd (logAuditEvent env a act rid d w)) = risks_table w"
  by (simp add: logAuditEvent_def insert_audit_def Let_def
      split: option.splits behaviour.splits)

lemma logAuditEvent_no_scope:
  "organization_scope a = None \<Longrightarrow>
   snd (logAuditEvent env a act rid d w)
     = w\<lparr> console := console w
            @ [console_warn ''Cannot log audit event: no organization ID available''] \<rparr>"
  by (simp add: logAuditEvent_def)

lemma logAuditEvent_calls:
  "organization_scope a = Some org \<Longrightarrow>
   calls (snd (logAuditEvent env a act rid d w))
     = calls w @ [InsertAudit (audit_row env a org act rid d)]"
  by (simp add: logAuditEvent_def insert_audit_def Let_def split: behaviour.splits)

lemma logAuditEvent_served:
  "organization_scope a = Some org \<Longrightarrow> on_audit_insert env = Serves \<Longrightarrow>
   audit_logs (snd (logAuditEvent env a act rid d w))
     = audit_logs w @ [audit_row env a org act rid d] \<and>
   console (snd (logAuditEvent env a act rid d w)) = console w"
  by (simp add: logAuditEvent_def insert_audit_def Let_def)

lemma logAuditEvent_rejected:
  "organization_scope a = Some org \<Longrightarrow> on_audit_insert env = Rejects e \<Longrightarrow>
   audit_logs (snd (logAuditEvent env a act rid d w)) = audit_logs w \<and>
   console (snd (logAuditEvent env a act rid d w))
     = console w @ [console_error ''Error logging audit event:'' e]"
  by (simp add: logAuditEvent_def insert_audit_def Let_def)

lemma logAuditEvent_thrown:
  "organization_scope a = Some org \<Longrightarrow> on_audit_insert env = Throws e \<Longrightarrow>
   audit_logs (snd (logAuditEvent env a act rid d w)) = audit_logs w \<and>
   console (snd (logAuditEvent env a act rid d w))
     = console w @ [console_error ''Unexpected error logging audit event:'' e]"
  by (simp add: logAuditEvent_def insert_audit_def Let_def)

text \<open>
  C9. \<open>logAuditEvent\<close> always returns and never throws, and it leaves the risks table as
  it was. Without an organization scope it makes no store call and writes one warning.
  With a scope it makes one insert call; when that call is rejected or throws, nothing is
  added to the audit log and one error line is written to the console.
\<close>

theorem audit_failure_is_contained:
  "fst (logAuditEvent env a act rid d w) = Inr () \<and>
   risks_table (snd (logAuditEvent env a act rid d w)) = risks_table w \<and>
   (organization_scope a = None \<longrightarrow>
      snd (logAuditEvent env a act rid d w)
        = w\<lparr> console := console w
               @ [console_warn ''Cannot log audit event: no organization ID available''] \<rparr>) \<and>
   (\<forall>org. organization_scope a = Some org \<longrightarrow>
      calls (snd (logAuditEvent env a act rid d w))
        = calls w @ [InsertAudit (audit_row env a org act rid d)] \<and>
      (on_audit_insert env = Serves \<longrightarrow>
         audit_logs (snd (logAuditEvent env a act rid d w))
           = audit_logs w @ [audit_row env a org act rid d] \<and>
         console (snd (logAuditEvent env a act rid d w)) = console w) \<and>
      (\<forall>e. on_audit_insert env = Rejects e \<longrightarrow>
         audit_logs (snd (logAuditEvent env a act rid d w)) = audit_logs w \<and>
         console (snd (logAuditEvent env a act rid d w))
           = console w @ [console_error ''Error logging audit event:'' e]) \<and>
      (\<forall>e. on_audit_insert env = Throws e \<longrightarrow>
         audit_logs (snd (logAuditEvent env a act rid d w)) = audit_logs w \<and>
         console (snd (logAuditEvent env a act rid d w))
           = console w @ [console_error ''Unexpected error logging audit event:'' e]))"
  by (intro conjI allI impI)
    (simp_all add: logAuditEvent_returns logAuditEvent_risks_table logAuditEvent_no_scope
      logAuditEvent_calls logAuditEvent_served logAuditEvent_rejected logAuditEvent_thrown)

lemma example_scope: "organization_scope example_auth = Some ''org1''"
  by (simp add: organization_scope_def example_auth_def)

lemma example_single_row:
  "filter (\<lambda>r. risk_id r = ''r1'') (risks_table example_world) = [example_r1]"
  by (simp add: example_world_def example_r1_def example_r2_def example_r3_def)

lemma example_env_facts:
  "confirm_answer example_env" "on_select example_env = Serves"
  "on_delete example_env = Serves" "on_fetch example_env = Serves"
  "on_audit_insert example_env = Throws (Error ''audit store unavailable'')"
  by (simp_all add: example_env_def)

theorem audit_failure_is_contained_witness:
  "organization_scope (example_auth\<lparr> auth_profile := None \<rparr>) = None \<and>
   logAuditEvent example_env (example_auth\<lparr> auth_profile := None \<rparr>) ''risk_deleted''
       (Some ''r1'') None example_world
     = (Inr (), example_world\<lparr> console :=
          [console_warn ''Cannot log audit event: no organization ID available''] \<rparr>) \<and>
   organization_scope example_auth = Some ''org1'' \<and>
   on_audit_insert example_env = Throws (Error ''audit store unavailable'') \<and>
   fst (logAuditEvent example_env example_auth ''risk_deleted'' (Some ''r1'') None
          example_world) = Inr () \<and>
   audit_logs (snd (logAuditEvent example_env example_auth ''risk_deleted'' (Some ''r1'') None
                      example_world)) = [] \<and>
   console (snd (logAuditEvent example_env example_auth ''risk_deleted'' (Some ''r1'') None
                   example_world))
     = [console_error ''Unexpected error logging audit event:''
          (Error ''audit store unavailable'')] \<and>
   risks_table (snd (logAuditEvent example_env example_auth ''risk_deleted'' (Some ''r1'') None
                       example_world)) = [example_r1, example_r2, example_r3]"
proof -
  have none: "organization_scope (example_auth\<lparr> auth_profile := None \<rparr>) = None"
    by (simp add: organization_scope_def)
  have w0: "console example_world = []" "audit_logs example_world = []"
    "risks_table example_world = [example_r1, example_r2, example_r3]"
    by (simp_all add: example_world_def)
  note skip = audit_failure_is_contained [of example_env "example_auth\<lparr> auth_profile := None \<rparr>"
      "''risk_deleted''" "Some ''r1''" None example_world]
  note fail = audit_failure_is_contained [of example_env example_auth
      "''risk_deleted''" "Some ''r1''" None example_world]
  from skip none have a: "logAuditEvent example_env (example_auth\<lparr> auth_profile := None \<rparr>)
       ''risk_deleted'' (Some ''r1'') None example_world
     = (Inr (), example_world\<lparr> console :=
          [console_warn ''Cannot log audit event: no organization ID available''] \<rparr>)"
    by (simp add: prod_eq_iff w0)
  from fail example_scope example_env_facts(5)
  have b: "fst (logAuditEvent example_env example_auth ''risk_deleted'' (Some ''r1'') None
          example_world) = Inr () \<and>
   audit_logs (snd (logAuditEvent example_env example_auth ''risk_deleted'' (Some ''r1'') None
                      example_world)) = [] \<and>
   console (snd (logAuditEvent example_env example_auth ''risk_deleted'' (Some ''r1'') None
                   example_world))
     = [console_error ''Unexpected error logging audit event:''
          (Error ''audit store unavailable'')] \<and>
   risks_table (snd (logAuditEvent example_env example_auth ''risk_deleted'' (Some ''r1'') None
                       example_world)) = [example_r1, example_r2, example_r3]"
    by (simp add: w0)
  from none a example_scope example_env_facts(5) b show ?thesis
    by (intro conjI) simp_all
qed

section \<open>Deleting a risk\<close>

lemma select_single_no_throw:
  assumes "\<forall>e. on_select env \<noteq> Throws e"
  shows "\<exists>sel. select_single env riskId w
              = (Inr sel, w\<lparr> calls := calls w @ [SelectRisk riskId] \<rparr>) \<and>
           (case data sel of Some riskData \<Rightarrow> riskData | None \<Rightarrow> JObject [])
              = (if on_select env = Serves
                 then (case filter (\<lambda>r. risk_id r = riskId) (risks_table w) of
                         [r] \<Rightarrow> snapshot r
                       | _ \<Rightarrow> JObject [])
                 else JObject [])"
proof (cases "on_select env")
  case Serves
  then show ?thesis
    by (simp add: select_single_def Let_def split: list.splits)
next
  case (Rejects e)
  then show ?thesis
    by (simp add: select_single_def Let_def)
next
  case (Throws e)
  with assms show ?thesis by simp
qed

lemma delete_risk_served:
  "on_delete env = Serves \<Longrightarrow>
   delete_risk env riskId w
     = (Inr (Response None None),
        w\<lparr> calls := calls w @ [DeleteRisk riskId],
           risks_table := filter (\<lambda>r. risk_id r \<noteq> riskId) (risks_table w) \<rparr>)"
  by (simp add: delete_risk_def Let_def)

lemma fetchRisks_world:
  "calls (fst (fetchRisks env (w, st))) = calls w @ [SelectAllRisks] \<and>
   risks_table (fst (fetchRisks env (w, st))) = risks_table w \<and>
   audit_logs (fst (fetchRisks env (w, st))) = audit_logs w"
  by (simp add: fetchRisks_def select_all_def fetchRisks_failed_def Let_def
      split: behaviour.splits)

lemma fetchRisks_error:
  "error (snd (fetchRisks env (w, st)))
     = (if on_fetch env = Serves then None else Some ''Failed to load risk data'')"
  by (simp add: fetchRisks_def select_all_def fetchRisks_failed_def Let_def
      split: behaviour.splits)

lemma handleDeleteRisk_accepted:
  assumes "confirm_answer env" and "on_delete env = Serves"
    and "select_single env riskId w = (Inr sel, w1)"
  shows "handleDeleteRisk env a riskId riskTitle (w, st) =
    (case fetchRisks env
        (snd (logAuditEvent env a ''risk_deleted'' (Some riskId)
           (Some (JObject [(''risk_title'', JString riskTitle),
                           (''risk_details'',
                              (case data sel of Some riskData \<Rightarrow> riskData
                                              | None \<Rightarrow> JObject [])),
                           (''deleted_at'', JString (utf16 (now env)))]))
           (w1\<lparr> calls := calls w1 @ [DeleteRisk riskId],
                risks_table := filter (\<lambda>r. risk_id r \<noteq> riskId) (risks_table w1) \<rparr>)),
         if (case selectedRisk st of Some r \<Rightarrow> risk_id r = riskId | None \<Rightarrow> False)
         then st\<lparr> loading := True, error := None, selectedRisk := None \<rparr>
         else st\<lparr> loading := True, error := None \<rparr>) of
      (w4, st4) \<Rightarrow> (w4, st4\<lparr> loading := False \<rparr>))"
proof -
  let ?d = "Some (JObject [(''risk_title'', JString riskTitle),
                           (''risk_details'',
                              (case data sel of Some riskData \<Rightarrow> riskData
                                              | None \<Rightarrow> JObject [])),
                           (''deleted_at'', JString (utf16 (now env)))])"
  let ?w2 = "w1\<lparr> calls := calls w1 @ [DeleteRisk riskId],
                risks_table := filter (\<lambda>r. risk_id r \<noteq> riskId) (risks_table w1) \<rparr>"
  obtain res w3 where l: "logAuditEvent env a ''risk_deleted'' (Some riskId) ?d ?w2 = (res, w3)"
    by (cases "logAuditEvent env a ''risk_deleted'' (Some riskId) ?d ?w2")
  with logAuditEvent_returns [of env a "''risk_deleted''" "Some riskId" ?d ?w2]
  have res: "res = Inr ()" by simp
  show ?thesis
    using assms l res
    by (simp add: handleDeleteRisk_def handleDeleteRisk_try_def delete_risk_served
        split: prod.splits)
qed

text \<open>
  C7, as the code has it. Let the user confirm, the snapshot read not throw and the store
  serve the delete. Then the risk is gone from the table whatever the audit insert does,
  and the handler sets no error of its own. With an organization scope the store calls
  are snapshot read, delete, one audit insert, reload, and the one inserted row has the
  action \<open>risk_deleted\<close>, the id of the risk, and details made of the title passed to
  the handler, the title, category, score and status that the read before the delete
  returned (an empty object when that read was rejected or found no single row) and the
  time. Without an organization scope there is no audit insert, only the warning.
\<close>

theorem delete_audit_event_by_scope:
  assumes "confirm_answer env" and "on_delete env = Serves"
    and "\<forall>e. on_select env \<noteq> Throws e"
  shows
    "let after = handleDeleteRisk env a riskId riskTitle (w, st);
         risk_details =
           (if on_select env = Serves
            then (case filter (\<lambda>r. risk_id r = riskId) (risks_table w) of
                    [r] \<Rightarrow> JObject [(''title'', JString (title r)),
                                     (''category'', JString (utf16 (category r))),
                                     (''risk_score'', JNumber (risk_score r)),
                                     (''status'', JString (utf16 (status r)))]
                  | _ \<Rightarrow> JObject [])
            else JObject []);
         event = (\<lambda>org.
           \<lparr> log_user_id = (case auth_user a of
                              Some u \<Rightarrow> if user_id u = [] then None else Some (user_id u)
                            | None \<Rightarrow> None),
             log_organization_id = org,
             action = ''risk_deleted'',
             resource_type = ''risk'',
             resource_id = Some riskId,
             details = Some (JObject [(''risk_title'', JString riskTitle),
                                      (''risk_details'', risk_details),
                                      (''deleted_at'', JString (utf16 (now env)))]),
             ip_address = None,
             user_agent = userAgent env \<rparr>)
     in risks_table (fst after) = filter (\<lambda>r. risk_id r \<noteq> riskId) (risks_table w) \<and>
        (\<forall>r' \<in> set (risks_table (fst after)). risk_id r' \<noteq> riskId) \<and>
        (\<forall>org. organization_scope a = Some org \<longrightarrow>
           calls (fst after)
             = calls w @ [SelectRisk riskId, DeleteRisk riskId, InsertAudit (event org),
                          SelectAllRisks] \<and>
           emitted (drop (length (calls w)) (calls (fst after))) = [event org]) \<and>
        (organization_scope a = None \<longrightarrow>
           calls (fst after)
             = calls w @ [SelectRisk riskId, DeleteRisk riskId, SelectAllRisks] \<and>
           emitted (drop (length (calls w)) (calls (fst after))) = [] \<and>
           console (fst after) = console w
             @ [console_warn ''Cannot log audit event: no organization ID available'']
             @ (case on_fetch env of
                  Serves \<Rightarrow> []
                | Rejects e \<Rightarrow> [console_error ''Error fetching risks:'' e]
                | Throws e \<Rightarrow> [console_error ''Error fetching risks:'' e])) \<and>
        error (snd after)
          = (if on_fetch env = Serves then None else Some ''Failed to load risk data'')"
proof -
  define rd where "rd =
           (if on_select env = Serves
            then (case filter (\<lambda>r. risk_id r = riskId) (risks_table w) of
                    [r] \<Rightarrow> JObject [(''title'', JString (title r)),
                                     (''category'', JString (utf16 (category r))),
                                     (''risk_score'', JNumber (risk_score r)),
                                     (''status'', JString (utf16 (status r)))]
                  | _ \<Rightarrow> JObject [])
            else JObject [])"
  define d where "d = Some (JObject [(''risk_title'', JString riskTitle),
                                     (''risk_details'', rd),
                                     (''deleted_at'', JString (utf16 (now env)))])"
  define ev where "ev = (\<lambda>org.
           \<lparr> log_user_id = (case auth_user a of
                              Some u \<Rightarrow> if user_id u = [] then None else Some (user_id u)
                            | None \<Rightarrow> None),
             log_organization_id = org,
             action = ''risk_deleted'',
             resource_type = ''risk'',
             resource_id = Some riskId,
             details = d,
             ip_address = None,
             user_agent = userAgent env \<rparr>)"
  define w2 where "w2 = w\<lparr> calls := calls w @ [SelectRisk riskId, DeleteRisk riskId],
               risks_table := filter (\<lambda>r. risk_id r \<noteq> riskId) (risks_table w) \<rparr>"
  define w3 where "w3 = snd (logAuditEvent env a ''risk_deleted'' (Some riskId) d w2)"
  define st2 where "st2 =
    (if (case selectedRisk st of Some r \<Rightarrow> risk_id r = riskId | None \<Rightarrow> False)
     then st\<lparr> loading := True, error := None, selectedRisk := None \<rparr>
     else st\<lparr> loading := True, error := None \<rparr>)"
  define after where "after = handleDeleteRisk env a riskId riskTitle (w, st)"
  from select_single_no_throw [OF assms(3), of riskId w]
  obtain sel where s: "select_single env riskId w
        = (Inr sel, w\<lparr> calls := calls w @ [SelectRisk riskId] \<rparr>)"
    and sd: "(case data sel of Some riskData \<Rightarrow> riskData | None \<Rightarrow> JObject []) = rd"
    unfolding rd_def snapshot_def by blast
  have h: "after = (case fetchRisks env (w3, st2) of (w4, st4) \<Rightarrow> (w4, st4\<lparr> loading := False \<rparr>))"
    unfolding after_def handleDeleteRisk_accepted [OF assms(1) assms(2) s]
    by (simp add: w3_def w2_def st2_def d_def sd)
  have world: "fst after = fst (fetchRisks env (w3, st2))"
    by (simp add: h split: prod.splits)
  have err: "error (snd after) = error (snd (fetchRisks env (w3, st2)))"
    by (simp add: h split: prod.splits)
  have t3: "risks_table w3 = risks_table w2"
    unfolding w3_def by (rule logAuditEvent_risks_table)
  have table: "risks_table (fst after) = filter (\<lambda>r. risk_id r \<noteq> riskId) (risks_table w)"
    by (simp add: world fetchRisks_world t3 w2_def)
  have gone: "\<forall>r' \<in> set (risks_table (fst after)). risk_id r' \<noteq> riskId"
    by (simp add: table)
  have row: "audit_row env a org ''risk_deleted'' (Some riskId) d = ev org" for org
    by (simp add: audit_row_def ev_def)
  have scoped: "calls (fst after)
             = calls w @ [SelectRisk riskId, DeleteRisk riskId, InsertAudit (ev org),
                          SelectAllRisks] \<and>
           emitted (drop (length (calls w)) (calls (fst after))) = [ev org]"
    if "organization_scope a = Some org" for org
  proof -
    have "calls w3 = calls w2 @ [InsertAudit (ev org)]"
      unfolding w3_def row [symmetric] by (rule logAuditEvent_calls [OF that])
    then have "calls (fst after)
             = calls w @ [SelectRisk riskId, DeleteRisk riskId, InsertAudit (ev org),
                          SelectAllRisks]"
      by (simp add: world fetchRisks_world w2_def)
    then show ?thesis by simp
  qed
  have unscoped: "calls (fst after)
             = calls w @ [SelectRisk riskId, DeleteRisk riskId, SelectAllRisks] \<and>
           emitted (drop (length (calls w)) (calls (fst after))) = [] \<and>
           console (fst after) = console w
             @ [console_warn ''Cannot log audit event: no organization ID available'']
             @ (case on_fetch env of
                  Serves \<Rightarrow> []
                | Rejects e \<Rightarrow> [console_error ''Error fetching risks:'' e]
                | Throws e \<Rightarrow> [console_error ''Error fetching risks:'' e])"
    if "organization_scope a = None"
  proof -
    have w3: "w3 = w2\<lparr> console := console w2
            @ [console_warn ''Cannot log audit event: no organization ID available''] \<rparr>"
      unfolding w3_def by (rule logAuditEvent_no_scope [OF that])
    have c: "calls (fst after)
             = calls w @ [SelectRisk riskId, DeleteRisk riskId, SelectAllRisks]"
      by (simp add: world fetchRisks_world w3 w2_def)
    have k: "console (fst after) = console w
             @ [console_warn ''Cannot log audit event: no organization ID available'']
             @ (case on_fetch env of
                  Serves \<Rightarrow> []
                | Rejects e \<Rightarrow> [console_error ''Error fetching risks:'' e]
                | Throws e \<Rightarrow> [console_error ''Error fetching risks:'' e])"
      by (simp add: world w3 w2_def fetchRisks_def select_all_def fetchRisks_failed_def
          Let_def split: behaviour.splits)
    from c k show ?thesis by simp
  qed
  have banner: "error (snd after)
      = (if on_fetch env = Serves then None else Some ''Failed to load risk data'')"
    by (simp only: err fetchRisks_error)
  from table gone scoped unscoped banner show ?thesis
    unfolding Let_def after_def ev_def d_def rd_def by (intro conjI allI impI) blast+
qed


theorem delete_audit_event_by_scope_witness:
  "confirm_answer example_env \<and> on_delete example_env = Serves \<and>
   on_select example_env = Serves \<and>
   on_audit_insert example_env = Throws (Error ''audit store unavailable'') \<and>
   organization_scope example_auth = Some ''org1'' \<and>
   emitted (calls (fst (handleDeleteRisk example_env example_auth ''r1''
                          (utf16 ''Vendor outage'') (example_world, example_state))))
     = [\<lparr> log_user_id = Some ''u1'', log_organization_id = ''org1'',
          action = ''risk_deleted'', resource_type = ''risk'', resource_id = Some ''r1'',
          details = Some (JObject
            [(''risk_title'', JString (utf16 ''Vendor outage'')),
             (''risk_details'',
                JObject [(''title'', JString (utf16 ''Vendor outage'')),
                         (''category'', JString (utf16 ''operational'')),
                         (''risk_score'', JNumber 5),
                         (''status'', JString (utf16 ''identified''))]),
             (''deleted_at'', JString (utf16 ''2025-01-02T00:00:00.000Z''))]),
          ip_address = None, user_agent = ''Mozilla/5.0'' \<rparr>] \<and>
   risks_table (fst (handleDeleteRisk example_env example_auth ''r1''
                       (utf16 ''Vendor outage'') (example_world, example_state)))
     = [example_r2, example_r3] \<and>
   error (snd (handleDeleteRisk example_env example_auth ''r1''
                 (utf16 ''Vendor outage'') (example_world, example_state))) = None"
proof -
  have nothrow: "\<forall>e. on_select example_env \<noteq> Throws e"
    by (simp add: example_env_def)
  have tab: "filter (\<lambda>r. risk_id r \<noteq> ''r1'') (risks_table example_world)
               = [example_r2, example_r3]"
    by (simp add: example_world_def example_r1_def example_r2_def example_r3_def)
  have nocalls: "calls example_world = []"
    by (simp add: example_world_def)
  have who: "auth_user example_auth = Some \<lparr> user_id = ''u1'' \<rparr>"
    by (simp add: example_auth_def)
  have env: "now example_env = ''2025-01-02T00:00:00.000Z''"
    "userAgent example_env = ''Mozilla/5.0''"
    by (simp_all add: example_env_def)
  have r1: "title example_r1 = utf16 ''Vendor outage''" "category example_r1 = ''operational''"
    "risk_score example_r1 = 5" "status example_r1 = ''identified''"
    by (simp_all add: example_r1_def)
  from delete_audit_event_by_scope [OF example_env_facts(1) example_env_facts(3) nothrow,
      of example_auth "''r1''" "utf16 ''Vendor outage''" example_world example_state]
  have "emitted (calls (fst (handleDeleteRisk example_env example_auth ''r1''
                          (utf16 ''Vendor outage'') (example_world, example_state))))
     = [\<lparr> log_user_id = Some ''u1'', log_organization_id = ''org1'',
          action = ''risk_deleted'', resource_type = ''risk'', resource_id = Some ''r1'',
          details = Some (JObject
            [(''risk_title'', JString (utf16 ''Vendor outage'')),
             (''risk_details'',
                JObject [(''title'', JString (utf16 ''Vendor outage'')),
                         (''category'', JString (utf16 ''operational'')),
                         (''risk_score'', JNumber 5),
                         (''status'', JString (utf16 ''identified''))]),
             (''deleted_at'', JString (utf16 ''2025-01-02T00:00:00.000Z''))]),
          ip_address = None, user_agent = ''Mozilla/5.0'' \<rparr>] \<and>
   risks_table (fst (handleDeleteRisk example_env example_auth ''r1''
                       (utf16 ''Vendor outage'') (example_world, example_state)))
     = [example_r2, example_r3] \<and>
   error (snd (handleDeleteRisk example_env example_auth ''r1''
                 (utf16 ''Vendor outage'') (example_world, example_state))) = None"
    unfolding Let_def
    by (simp add: nocalls tab example_env_facts(2) example_env_facts(4) example_scope
        example_single_row who env r1)
  with example_env_facts example_scope show ?thesis
    by (intro conjI) simp_all
qed

text \<open>
  The claim C7 as stated has every delete emit one audit event that carries the snapshot.
  Without an organization scope the example risk is deleted and no event is emitted; with
  the snapshot read rejected it is deleted and the one event carries an empty snapshot.
\<close>

theorem delete_without_scope_emits_no_event:
  "risks_table (fst (handleDeleteRisk example_env (example_auth\<lparr> auth_profile := None \<rparr>) ''r1''
                       (utf16 ''Vendor outage'') (example_world, example_state)))
     = [example_r2, example_r3] \<and>
   emitted (calls (fst (handleDeleteRisk example_env (example_auth\<lparr> auth_profile := None \<rparr>)
                          ''r1'' (utf16 ''Vendor outage'') (example_world, example_state))))
     = [] \<and>
   map details
     (emitted (calls (fst (handleDeleteRisk
                             (example_env\<lparr> on_select := Rejects (NonError ''read rejected'') \<rparr>)
                             example_auth ''r1'' (utf16 ''Vendor outage'')
                             (example_world, example_state)))))
     = [Some (JObject [(''risk_title'', JString (utf16 ''Vendor outage'')),
                       (''risk_details'', JObject []),
                       (''deleted_at'', JString (utf16 ''2025-01-02T00:00:00.000Z''))])]"
proof -
  have s1: "select_single example_env ''r1'' example_world
      = (Inr (Response (Some (snapshot example_r1)) None),
         example_world\<lparr> calls := [SelectRisk ''r1''] \<rparr>)"
    by (simp add: select_single_def Let_def example_env_def example_world_def
        example_r1_def example_r2_def example_r3_def)
  have s2: "select_single (example_env\<lparr> on_select := Rejects (NonError ''read rejected'') \<rparr>)
        ''r1'' example_world
      = (Inr (Response None (Some (NonError ''read rejected''))),
         example_world\<lparr> calls := [SelectRisk ''r1''] \<rparr>)"
    by (simp add: select_single_def Let_def example_world_def)
  have e2: "confirm_answer (example_env\<lparr> on_select := Rejects (NonError ''read rejected'') \<rparr>)"
    "on_delete (example_env\<lparr> on_select := Rejects (NonError ''read rejected'') \<rparr>) = Serves"
    by (simp_all add: example_env_def)
  have none: "organization_scope (example_auth\<lparr> auth_profile := None \<rparr>) = None"
    by (simp add: organization_scope_def)
  have tab: "filter (\<lambda>r. risk_id r \<noteq> ''r1'') (risks_table example_world)
               = [example_r2, example_r3]"
    by (simp add: example_world_def example_r1_def example_r2_def example_r3_def)
  have a: "risks_table (fst (handleDeleteRisk example_env (example_auth\<lparr> auth_profile := None \<rparr>)
                       ''r1'' (utf16 ''Vendor outage'') (example_world, example_state)))
     = [example_r2, example_r3]"
    unfolding handleDeleteRisk_accepted [OF example_env_facts(1) example_env_facts(3) s1]
    by (simp add: split_beta fetchRisks_world logAuditEvent_risks_table tab)
  have b: "emitted (calls (fst (handleDeleteRisk example_env
                          (example_auth\<lparr> auth_profile := None \<rparr>)
                          ''r1'' (utf16 ''Vendor outage'') (example_world, example_state))))
     = []"
    unfolding handleDeleteRisk_accepted [OF example_env_facts(1) example_env_facts(3) s1]
    by (simp add: split_beta fetchRisks_world logAuditEvent_no_scope [OF none])
  have c: "map details
     (emitted (calls (fst (handleDeleteRisk
                             (example_env\<lparr> on_select := Rejects (NonError ''read rejected'') \<rparr>)
                             example_auth ''r1'' (utf16 ''Vendor outage'')
                             (example_world, example_state)))))
     = [Some (JObject [(''risk_title'', JString (utf16 ''Vendor outage'')),
                       (''risk_details'', JObject []),
                       (''deleted_at'', JString (utf16 ''2025-01-02T00:00:00.000Z''))])]"
    unfolding handleDeleteRisk_accepted [OF e2 s2]
    by (simp add: split_beta fetchRisks_world logAuditEvent_calls [OF example_scope]
        audit_row_def example_env_def)
  from a b c show ?thesis by (intro conjI)
qed

end
